theory Spec2Isabelle
  imports Main
begin

text \<open>
  The IOC business operations of \<open>app.business.iocs\<close> and the REST views over IOCs,
  tasks and cases of \<open>app.blueprints.rest.v2\<close>, as functions on an explicit store:
  every exception is a value, every write and every activity entry is logged in order,
  and every view returns its response, the store it leaves and the calls it made.
\<close>

section \<open>Data model\<close>

text \<open>
  JSON values as the REST layer receives and returns them. A request body is a Python
  dict, modelled as a map from keys to values.
\<close>

datatype jvalue =
    JNull
  | JInt int
  | JStr string
  | JList "jvalue list"
  | JObj "(string \<times> jvalue) list"

type_synonym json = "string \<rightharpoonup> jvalue"

text \<open>The per-field messages of a marshmallow \<open>ValidationError\<close> (\<open>e.messages\<close>).\<close>

type_synonym field_errors = "(string \<times> string list) list"

text \<open>
  The \<open>Ioc\<close> model of \<open>app.models\<close>: the columns the business layer and
  \<open>iocs_build_filter_query\<close> read.
\<close>

record ioc =
  ioc_id :: int
  ioc_uuid :: string
  ioc_value :: string
  ioc_type_id :: int
  ioc_description :: string
  ioc_tlp_id :: int
  ioc_tags :: string
  ioc_misp :: string
  user_id :: int
  case_id :: int

record task =
  task_id :: int
  task_case_id :: int

text \<open>
  The exceptions that travel through the business layer. \<open>BusinessProcessingError\<close>
  carries a message and optional data (\<open>get_message\<close>, \<open>get_data\<close>): nothing, the
  field messages of a validation failure, or the exception it wraps. \<open>TypeError\<close>
  is the Python exception raised when a hook hands back \<open>None\<close> where a dict is
  unpacked or indexed.
\<close>

datatype error =
    BusinessProcessingError string error_data
  | ValidationError field_errors
  | ObjectNotFoundError
  | TypeError
and error_data =
    NoData
  | Messages field_errors
  | Cause error

fun get_message :: "error \<Rightarrow> string" where
  "get_message (BusinessProcessingError message d) = message"
| "get_message e = []"

fun get_data :: "error \<Rightarrow> error_data" where
  "get_data (BusinessProcessingError message d) = d"
| "get_data e = NoData"

text \<open>
  Every effect on persistent state, in the order the calls are made: the rows written
  by the persistence port and the entries appended by \<open>track_activity\<close>.
\<close>

datatype effect =
    IocInserted ioc
  | IocStateUpdated int
  | IocCommitted ioc
  | IocDeleted int
  | ActivityTracked int string

record store =
  ioc_table :: "ioc list"
  task_table :: "task list"
  effects :: "effect list"

fun activity_of :: "effect \<Rightarrow> (int \<times> string) list" where
  "activity_of (ActivityTracked caseid message) = [(caseid, message)]"
| "activity_of e = []"

text \<open>The activity log: the (case, message) entries recorded so far, oldest first.\<close>

definition activity_entries :: "store \<Rightarrow> (int \<times> string) list" where
  "activity_entries s = concat (map activity_of (effects s))"

fun is_persist :: "effect \<Rightarrow> bool" where
  "is_persist (IocInserted i) = True"
| "is_persist (IocCommitted i) = True"
| "is_persist (IocDeleted n) = True"
| "is_persist e = False"

section \<open>String formatting\<close>

text \<open>Python's \<open>str\<close> of an integer, for the f-strings of the messages.\<close>

fun str_nat :: "nat \<Rightarrow> string" where
  "str_nat n =
     (if n < 10 then [''0123456789'' ! n]
      else str_nat (n div 10) @ [''0123456789'' ! (n mod 10)])"

definition str_int :: "int \<Rightarrow> string" where
  "str_int k = (if k < 0 then CHR ''-'' # str_nat (nat (- k)) else str_nat (nat k))"

text \<open>A value between double quotes, as in \<open>f'added ioc "{ioc.ioc_value}"'\<close>.\<close>

definition quoted :: "string \<Rightarrow> string" where
  "quoted v = CHR 0x22 # v @ [CHR 0x22]"

section \<open>The persistence port and the activity tracker\<close>

text \<open>
  \<open>app.datamgmt.case.case_iocs_db\<close>, \<open>app.datamgmt.states\<close>, the database session
  and \<open>app.iris_engine.utils.tracker\<close> are not part of the sources. The spec gives the
  port as fetch by identifier, persist (insert), persist (update) and persist (delete),
  and the tracker as the append of one entry. The model keeps the table of committed
  rows and logs each write, in order.
\<close>

text \<open>
  Modelled from the spec: \<open>get_ioc\<close>, the fetch by identifier, which finds the row
  with this primary key or nothing.
\<close>

definition get_ioc :: "store \<Rightarrow> int \<Rightarrow> ioc option" where
  "get_ioc s identifier = List.find (\<lambda>r. ioc_id r = identifier) (ioc_table s)"

text \<open>Modelled from the spec: the primary key the table gives to a new row.\<close>

definition next_ioc_id :: "store \<Rightarrow> int" where
  "next_ioc_id s = fold (\<lambda>r m. max (ioc_id r) m) (ioc_table s) 0 + 1"

text \<open>
  Modelled from the spec: \<open>add_ioc\<close>, persist (insert). The row gets its key and the
  user's identifier and is committed; the second component (\<open>existed\<close>) is not read
  by the caller.
\<close>

definition add_ioc :: "ioc \<Rightarrow> int \<Rightarrow> int \<Rightarrow> store \<Rightarrow> (ioc \<times> bool) \<times> store" where
  "add_ioc i uid caseid s =
     (let row = i\<lparr>ioc_id := next_ioc_id s, user_id := uid\<rparr>
      in ((row, False),
          s\<lparr>ioc_table := ioc_table s @ [row], effects := effects s @ [IocInserted row]\<rparr>))"

text \<open>Modelled from the spec: \<open>delete_ioc\<close>, persist (delete).\<close>

definition delete_ioc :: "ioc \<Rightarrow> int \<Rightarrow> store \<Rightarrow> store" where
  "delete_ioc i caseid s =
     s\<lparr>ioc_table := filter (\<lambda>r. ioc_id r \<noteq> ioc_id i) (ioc_table s),
       effects := effects s @ [IocDeleted (ioc_id i)]\<rparr>"

text \<open>
  Modelled from the spec: \<open>update_ioc_state\<close>, which marks the IOCs of a case as
  changed; the rows stay as they are.
\<close>

definition update_ioc_state :: "int \<Rightarrow> store \<Rightarrow> store" where
  "update_ioc_state caseid s = s\<lparr>effects := effects s @ [IocStateUpdated caseid]\<rparr>"

fun replace_row :: "int \<Rightarrow> ioc \<Rightarrow> ioc list \<Rightarrow> ioc list" where
  "replace_row identifier row [] = []"
| "replace_row identifier row (r # rs) =
     (if ioc_id r = identifier then row # rs else r # replace_row identifier row rs)"

text \<open>
  Modelled from the spec: \<open>db.session.commit()\<close> in \<open>iocs_update\<close>, persist (update).
  The instance fetched under \<open>identifier\<close> was changed in place by the schema load;
  the commit writes it back in the place of the fetched row.
\<close>

definition db_session_commit :: "int \<Rightarrow> ioc \<Rightarrow> store \<Rightarrow> store" where
  "db_session_commit identifier row s =
     s\<lparr>ioc_table := replace_row identifier row (ioc_table s),
       effects := effects s @ [IocCommitted row]\<rparr>"

text \<open>
  Modelled from the spec: \<open>track_activity\<close>, which appends one entry for the case with
  the message (the user and the time of the entry are left out).
\<close>

definition track_activity :: "string \<Rightarrow> int \<Rightarrow> store \<Rightarrow> store" where
  "track_activity message caseid s =
     s\<lparr>effects := effects s @ [ActivityTracked caseid message]\<rparr>"

section \<open>The collaborators of the business layer\<close>

text \<open>
  The module hooks (\<open>call_modules_hook\<close> with the hook's name), the marshmallow schema
  (\<open>IocSchema().load\<close>, plain and with \<open>instance=ioc, partial=True\<close>), the type table
  lookup \<open>check_ioc_type_id\<close> and \<open>current_user.id\<close> are not part of the sources; they
  are parameters. A hook returns a payload or \<open>None\<close>; a schema load returns the
  loaded entity or raises \<open>ValidationError\<close> with its field messages (\<open>Inl\<close>).
  The two delete hooks are called for their effect only: their results are discarded,
  so they do not appear. A hook is taken to return; it does not raise.
\<close>

record env =
  current_user_id :: int
  hook_on_preload_ioc_create :: "json \<Rightarrow> int \<Rightarrow> json option"
  hook_on_postload_ioc_create :: "ioc \<Rightarrow> int \<Rightarrow> ioc option"
  hook_on_preload_ioc_update :: "json \<Rightarrow> int \<Rightarrow> json option"
  hook_on_postload_ioc_update :: "ioc \<Rightarrow> int \<Rightarrow> ioc option"
  schema_load :: "json \<Rightarrow> field_errors + ioc"
  schema_load_instance :: "json \<Rightarrow> ioc \<Rightarrow> field_errors + ioc"
  check_ioc_type_id :: "int \<Rightarrow> bool"

section \<open>app.business.iocs\<close>

text \<open>\<open>_load\<close>: a validation failure becomes a \<open>BusinessProcessingError\<close>.\<close>

definition iocs_load :: "env \<Rightarrow> json \<Rightarrow> error + ioc" where
  "iocs_load env request_data =
     (case schema_load env request_data of
        Inl messages \<Rightarrow> Inl (BusinessProcessingError ''Data error'' (Messages messages))
      | Inr i \<Rightarrow> Inr i)"

definition iocs_get_by_identifier :: "store \<Rightarrow> int \<Rightarrow> ioc option" where
  "iocs_get_by_identifier s ioc_identifier = get_ioc s ioc_identifier"

definition iocs_create ::
  "env \<Rightarrow> json \<Rightarrow> int \<Rightarrow> store \<Rightarrow> (error + ioc \<times> string) \<times> store" where
  "iocs_create env request_json case_identifier s =
     (case hook_on_preload_ioc_create env request_json case_identifier of
        None \<Rightarrow> (Inl TypeError, s)
      | Some request_data \<Rightarrow>
          (case iocs_load env (request_data(''case_id'' \<mapsto> JInt case_identifier)) of
             Inl e \<Rightarrow> (Inl e, s)
           | Inr i \<Rightarrow>
               if \<not> check_ioc_type_id env (ioc_type_id i)
               then (Inl (BusinessProcessingError ''Not a valid IOC type'' NoData), s)
               else
                 (case add_ioc i (current_user_id env) case_identifier s of
                    ((i1, existed), s1) \<Rightarrow>
                      (case hook_on_postload_ioc_create env i1 case_identifier of
                         Some i2 \<Rightarrow>
                           (Inr (i2, ''IOC added''),
                            track_activity (''added ioc '' @ quoted (ioc_value i2))
                              case_identifier s1)
                       | None \<Rightarrow>
                           (Inl (BusinessProcessingError
                                   ''Unable to create IOC for internal reasons'' NoData),
                            s1)))))"

text \<open>
  The body of the \<open>try\<close> of \<open>iocs_update\<close>. The schema load with \<open>instance=ioc\<close>
  changes the fetched instance in place and returns it, so after the load \<open>ioc\<close> and
  \<open>ioc_sc\<close> are the same object: every later read of \<open>ioc.case_id\<close> reads the loaded
  entity, and the entity returned is the loaded one. Only committed rows are in the
  store: a failure before the commit leaves it as it was.
\<close>

definition iocs_update_try ::
  "env \<Rightarrow> int \<Rightarrow> json \<Rightarrow> store \<Rightarrow> (error + ioc \<times> string) \<times> store" where
  "iocs_update_try env identifier request_json s =
     (case get_ioc s identifier of
        None \<Rightarrow> (Inl (BusinessProcessingError ''Invalid IOC ID for this case'' NoData), s)
      | Some i \<Rightarrow>
          (case hook_on_preload_ioc_update env request_json (case_id i) of
             None \<Rightarrow> (Inl TypeError, s)
           | Some request_data \<Rightarrow>
               (case schema_load_instance env
                       (request_data(''ioc_id'' \<mapsto> JInt identifier,
                                     ''case_id'' \<mapsto> JInt (case_id i))) i of
                  Inl messages \<Rightarrow> (Inl (ValidationError messages), s)
                | Inr loaded \<Rightarrow>
                    (let ioc_sc = loaded\<lparr>user_id := current_user_id env\<rparr> in
                     if \<not> check_ioc_type_id env (ioc_type_id ioc_sc)
                     then (Inl (BusinessProcessingError ''Not a valid IOC type'' NoData), s)
                     else
                       (let s1 = update_ioc_state (case_id ioc_sc) s;
                            s2 = db_session_commit identifier ioc_sc s1
                        in case hook_on_postload_ioc_update env ioc_sc (case_id ioc_sc) of
                             Some h \<Rightarrow>
                               (Inr (ioc_sc, ''Updated ioc '' @ quoted (ioc_value h)),
                                track_activity (''updated ioc '' @ quoted (ioc_value h))
                                  (case_id ioc_sc) s2)
                           | None \<Rightarrow>
                               (Inl (BusinessProcessingError
                                       ''Unable to update ioc for internal reasons'' NoData),
                                s2))))))"

text \<open>
  The two \<open>except\<close> clauses of \<open>iocs_update\<close>, in their order: \<open>ValidationError\<close>
  first, then every other exception, the function's own \<open>BusinessProcessingError\<close>s
  included.
\<close>

fun iocs_update_except :: "error \<Rightarrow> error" where
  "iocs_update_except (ValidationError messages) =
     BusinessProcessingError ''Data error'' (Messages messages)"
| "iocs_update_except e = BusinessProcessingError ''Unexpected error server-side'' (Cause e)"

definition iocs_update ::
  "env \<Rightarrow> int \<Rightarrow> json \<Rightarrow> store \<Rightarrow> (error + ioc \<times> string) \<times> store" where
  "iocs_update env identifier request_json s =
     (case iocs_update_try env identifier request_json s of
        (Inl e, s') \<Rightarrow> (Inl (iocs_update_except e), s')
      | (Inr r, s') \<Rightarrow> (Inr r, s'))"

definition iocs_delete :: "env \<Rightarrow> int \<Rightarrow> store \<Rightarrow> (error + string) \<times> store" where
  "iocs_delete env identifier s =
     (case get_ioc s identifier of
        None \<Rightarrow> (Inl (BusinessProcessingError ''Not a valid IOC for this case'' NoData), s)
      | Some i \<Rightarrow>
          (let s1 = delete_ioc i (case_id i) s;
               s2 = track_activity (''deleted IOC '' @ quoted (ioc_value i)) (case_id i) s1
           in (Inr (''IOC '' @ str_int identifier @ '' deleted''), s2)))"


text \<open>
  \<open>iocs_build_filter_query\<close>. The keyword arguments, each \<open>None\<close> by default, are a
  record; Python does not enforce the annotations, so each argument is any value.
  \<open>Ioc.query.filter(*conditions)\<close> is the query over the table restricted by the
  conditions; \<open>logging.warning\<close> is returned beside it.
\<close>

datatype pyval = PInt int | PStr string

datatype column =
    Ioc_ioc_id
  | Ioc_ioc_uuid
  | Ioc_ioc_value
  | Ioc_ioc_type_id
  | Ioc_ioc_description
  | Ioc_ioc_tlp_id
  | Ioc_ioc_tags
  | Ioc_ioc_misp
  | Ioc_user_id

datatype condition = Eq column pyval

datatype query = Query_filter "condition list"

record filter_kwargs =
  kw_ioc_id :: "pyval option"
  kw_ioc_uuid :: "pyval option"
  kw_ioc_value :: "pyval option"
  kw_ioc_type_id :: "pyval option"
  kw_ioc_description :: "pyval option"
  kw_ioc_tlp_id :: "pyval option"
  kw_ioc_tags :: "pyval option"
  kw_ioc_misp :: "pyval option"
  kw_user_id :: "pyval option"
  kw_linked_cases :: "pyval option"

definition linked_cases_warning :: string where
  "linked_cases_warning =
     ''Method 'iocs_build_filter_query' with providing 'linked_cases' is deprecated. '' @
     ''It is no longer possible to query IOCs by linked cases.''"

definition iocs_build_filter_query :: "filter_kwargs \<Rightarrow> query \<times> string list" where
  "iocs_build_filter_query kw =
     (let conditions = [];
          conditions = (case kw_ioc_id kw of
                          Some v \<Rightarrow> conditions @ [Eq Ioc_ioc_id v] | None \<Rightarrow> conditions);
          conditions = (case kw_ioc_uuid kw of
                          Some v \<Rightarrow> conditions @ [Eq Ioc_ioc_uuid v] | None \<Rightarrow> conditions);
          conditions = (case kw_ioc_value kw of
                          Some v \<Rightarrow> conditions @ [Eq Ioc_ioc_value v] | None \<Rightarrow> conditions);
          conditions = (case kw_ioc_type_id kw of
                          Some v \<Rightarrow> conditions @ [Eq Ioc_ioc_type_id v] | None \<Rightarrow> conditions);
          conditions = (case kw_ioc_description kw of
                          Some v \<Rightarrow> conditions @ [Eq Ioc_ioc_description v]
                        | None \<Rightarrow> conditions);
          conditions = (case kw_ioc_tlp_id kw of
                          Some v \<Rightarrow> conditions @ [Eq Ioc_ioc_tlp_id v] | None \<Rightarrow> conditions);
          conditions = (case kw_ioc_tags kw of
                          Some v \<Rightarrow> conditions @ [Eq Ioc_ioc_tags v] | None \<Rightarrow> conditions);
          conditions = (case kw_ioc_misp kw of
                          Some v \<Rightarrow> conditions @ [Eq Ioc_ioc_misp v] | None \<Rightarrow> conditions);
          conditions = (case kw_user_id kw of
                          Some v \<Rightarrow> conditions @ [Eq Ioc_user_id v] | None \<Rightarrow> conditions);
          query = Query_filter conditions;
          warnings = (case kw_linked_cases kw of
                        Some v \<Rightarrow> [linked_cases_warning] | None \<Rightarrow> [])
      in (query, warnings))"

text \<open>
  What a query selects: \<open>filter\<close> with several conditions keeps the rows that meet all
  of them, and \<open>Ioc.column == value\<close> compares the row's column with the value.
\<close>

fun column_value :: "column \<Rightarrow> ioc \<Rightarrow> pyval" where
  "column_value Ioc_ioc_id r = PInt (ioc_id r)"
| "column_value Ioc_ioc_uuid r = PStr (ioc_uuid r)"
| "column_value Ioc_ioc_value r = PStr (ioc_value r)"
| "column_value Ioc_ioc_type_id r = PInt (ioc_type_id r)"
| "column_value Ioc_ioc_description r = PStr (ioc_description r)"
| "column_value Ioc_ioc_tlp_id r = PInt (ioc_tlp_id r)"
| "column_value Ioc_ioc_tags r = PStr (ioc_tags r)"
| "column_value Ioc_ioc_misp r = PStr (ioc_misp r)"
| "column_value Ioc_user_id r = PInt (user_id r)"

fun holds :: "condition \<Rightarrow> ioc \<Rightarrow> bool" where
  "holds (Eq c v) r = (column_value c r = v)"

fun conditions_of :: "query \<Rightarrow> condition list" where
  "conditions_of (Query_filter cs) = cs"

definition query_matches :: "query \<Rightarrow> ioc \<Rightarrow> bool" where
  "query_matches q r = list_all (\<lambda>c. holds c r) (conditions_of q)"

text \<open>
  The filter arguments in the words of the spec: each argument with the column it
  constrains, the conditions of the arguments that are supplied, and the test an
  argument imposes on a row (none when it is omitted).
\<close>

definition filter_arguments :: "(column \<times> (filter_kwargs \<Rightarrow> pyval option)) list" where
  "filter_arguments =
     [(Ioc_ioc_id, kw_ioc_id), (Ioc_ioc_uuid, kw_ioc_uuid), (Ioc_ioc_value, kw_ioc_value),
      (Ioc_ioc_type_id, kw_ioc_type_id), (Ioc_ioc_description, kw_ioc_description),
      (Ioc_ioc_tlp_id, kw_ioc_tlp_id), (Ioc_ioc_tags, kw_ioc_tags),
      (Ioc_ioc_misp, kw_ioc_misp), (Ioc_user_id, kw_user_id)]"

fun condition_if_supplied :: "column \<Rightarrow> pyval option \<Rightarrow> condition list" where
  "condition_if_supplied c None = []"
| "condition_if_supplied c (Some v) = [Eq c v]"

definition supplied_conditions :: "filter_kwargs \<Rightarrow> condition list" where
  "supplied_conditions kw =
     concat (map (\<lambda>(c, arg). condition_if_supplied c (arg kw)) filter_arguments)"

fun constraint :: "column \<Rightarrow> pyval option \<Rightarrow> ioc \<Rightarrow> bool" where
  "constraint c None r = True"
| "constraint c (Some v) r = (column_value c r = v)"

text \<open>The number of arguments of \<open>iocs_build_filter_query\<close> that a call supplies.\<close>

definition supplied_count :: "filter_kwargs \<Rightarrow> nat" where
  "supplied_count kw =
     length (filter (\<lambda>arg. arg kw \<noteq> None) (map snd filter_arguments @ [kw_linked_cases]))"

definition no_filters :: filter_kwargs where
  "no_filters =
     \<lparr>kw_ioc_id = None, kw_ioc_uuid = None, kw_ioc_value = None, kw_ioc_type_id = None,
      kw_ioc_description = None, kw_ioc_tlp_id = None, kw_ioc_tags = None,
      kw_ioc_misp = None, kw_user_id = None, kw_linked_cases = None\<rparr>"


section \<open>The REST layer\<close>

text \<open>
  Modelled from the spec: the access levels of \<open>app.models.authorization\<close>, which is
  not part of the sources (\<open>none < read_only < full_access\<close>).
\<close>

datatype CaseAccessLevel = none | read_only | full_access

text \<open>
  The responses of \<open>app.blueprints.rest.endpoints\<close> and \<open>app.blueprints.access_controls\<close>,
  by the name of the function that builds them. An exception that no \<open>except\<close> clause
  of a view catches leaves the view.
\<close>

datatype response =
    response_api_success jvalue
  | response_api_created jvalue
  | response_api_deleted
  | response_api_error string error_data
  | response_api_not_found
  | ac_api_return_access_denied int
  | unhandled_exception error

text \<open>
  What a view calls, in order: the operations of the business layer, by name, and the
  per-case access checks with the case, the levels asked for and the decision.
\<close>

datatype call =
    Business string
  | AccessCheck int "CaseAccessLevel list" bool

record cases =
  cases_case_id :: int
  cases_name :: string

text \<open>A page of results as \<open>paginate\<close> returns it: the attributes the views read.\<close>

record 'a pagination =
  items :: "'a list"
  total :: int
  pages :: int
  page :: int
  has_next :: bool
  next_num :: int

text \<open>
  \<open>request.args.get(key, default, type=...)\<close> for the four converters the views use
  (\<open>int\<close>, \<open>str\<close>, \<open>parse_comma_separated_identifiers\<close>, \<open>parse_boolean\<close>): the
  converted value, or nothing when the argument is absent or does not convert.
\<close>

record request_args =
  args_int :: "string \<Rightarrow> int option"
  args_str :: "string \<Rightarrow> string option"
  args_identifiers :: "string \<Rightarrow> int list option"
  args_boolean :: "string \<Rightarrow> bool option"

definition get_default :: "'a option \<Rightarrow> 'a \<Rightarrow> 'a" where
  "get_default v d = (case v of None \<Rightarrow> d | Some x \<Rightarrow> x)"

record filtered_iocs_kwargs =
  fi_caseid :: int
  fi_ioc_type_id :: "int option"
  fi_ioc_type :: "string option"
  fi_ioc_tlp_id :: "int option"
  fi_ioc_value :: "string option"
  fi_ioc_description :: "string option"
  fi_ioc_tags :: "string option"
  fi_page :: int
  fi_per_page :: int
  fi_sort_by :: "string option"
  fi_sort_dir :: string

record filtered_cases_kwargs =
  fc_case_ids :: "int list option"
  fc_case_customer_id :: "string option"
  fc_case_name :: "string option"
  fc_case_description :: "string option"
  fc_case_classification_id :: "int option"
  fc_case_owner_id :: "int option"
  fc_case_opening_user_id :: "int option"
  fc_case_severity_id :: "int option"
  fc_case_state_id :: "int option"
  fc_case_soc_id :: "string option"
  fc_start_open_date :: "string option"
  fc_end_open_date :: "string option"
  fc_search_value :: string
  fc_page :: int
  fc_per_page :: int
  fc_current_user_id :: int
  fc_sort_by :: "string option"
  fc_sort_dir :: string
  fc_is_open :: "bool option"

text \<open>
  What the views call outside the sources: the access check
  \<open>ac_fast_check_current_user_has_case_access\<close>, the schemas' \<open>dump\<close>, the filtered
  listings of \<open>app.datamgmt\<close> (a page, or \<open>None\<close>; for the dashboard the tasks of
  the current user), and \<open>app.business.tasks\<close>. The
  views hand the fetched entity to \<open>iocs_update\<close> and \<open>iocs_delete\<close>, where the business
  module of the sources takes an identifier, so the two operations as the views call
  them are parameters as well; \<open>iocs_create\<close> is called as the sources define it.
  \<open>ac_api_requires\<close> (the login check around every view) is taken as passed.
\<close>

record rest =
  business :: env
  ac_fast_check_current_user_has_case_access :: "int \<Rightarrow> CaseAccessLevel list \<Rightarrow> bool"
  IocSchemaForAPIV2_dump :: "ioc \<Rightarrow> jvalue"
  CaseTaskSchema_dump :: "task \<Rightarrow> jvalue"
  CaseSchemaForAPIV2_dump :: "cases \<Rightarrow> jvalue"
  get_filtered_iocs :: "filtered_iocs_kwargs \<Rightarrow> store \<Rightarrow> ioc pagination option"
  get_filtered_cases :: "filtered_cases_kwargs \<Rightarrow> store \<Rightarrow> cases pagination option"
  iocs_update_entity :: "ioc \<Rightarrow> json \<Rightarrow> store \<Rightarrow> (error + ioc \<times> string) \<times> store"
  iocs_delete_entity :: "ioc \<Rightarrow> store \<Rightarrow> (error + string) \<times> store"
  tasks_create :: "int \<Rightarrow> json \<Rightarrow> store \<Rightarrow> (error + string \<times> task) \<times> store"
  tasks_delete :: "task \<Rightarrow> store \<Rightarrow> (error + string) \<times> store"
  list_user_tasks :: "store \<Rightarrow> task list"

text \<open>
  Modelled from the spec: \<open>iocs_get\<close>, which the views import from the business
  layer and the sources do not define (get: fetch; \<open>ObjectNotFoundError\<close> if absent;
  no hooks, no audit).
\<close>

definition iocs_get :: "store \<Rightarrow> int \<Rightarrow> error + ioc" where
  "iocs_get s identifier =
     (case get_ioc s identifier of None \<Rightarrow> Inl ObjectNotFoundError | Some i \<Rightarrow> Inr i)"

text \<open>
  Modelled from the spec: \<open>tasks_get\<close> of \<open>app.business.tasks\<close>, the same get for
  tasks.
\<close>

definition tasks_get :: "store \<Rightarrow> int \<Rightarrow> error + task" where
  "tasks_get s identifier =
     (case List.find (\<lambda>t. task_id t = identifier) (task_table s) of
        None \<Rightarrow> Inl ObjectNotFoundError
      | Some t \<Rightarrow> Inr t)"

subsection \<open>app.blueprints.rest.v2.cases.iocs\<close>

definition get_case_iocs ::
  "rest \<Rightarrow> request_args \<Rightarrow> int \<Rightarrow> store \<Rightarrow> response \<times> store \<times> call list" where
  "get_case_iocs ctx args path_case_id s =
     (let allowed = ac_fast_check_current_user_has_case_access ctx path_case_id
                      [read_only, full_access];
          calls = [AccessCheck path_case_id [read_only, full_access] allowed]
      in if \<not> allowed then (ac_api_return_access_denied path_case_id, s, calls)
         else
           (case get_filtered_iocs ctx
                   \<lparr>fi_caseid = path_case_id,
                    fi_ioc_type_id = args_int args ''ioc_type_id'',
                    fi_ioc_type = args_str args ''ioc_type'',
                    fi_ioc_tlp_id = args_int args ''ioc_tlp_id'',
                    fi_ioc_value = args_str args ''ioc_value'',
                    fi_ioc_description = args_str args ''ioc_description'',
                    fi_ioc_tags = args_str args ''ioc_tags'',
                    fi_page = get_default (args_int args ''page'') 1,
                    fi_per_page = get_default (args_int args ''per_page'') 10,
                    fi_sort_by = args_str args ''order_by'',
                    fi_sort_dir = get_default (args_str args ''sort_dir'') ''asc''\<rparr> s of
              None \<Rightarrow> (response_api_error ''Filtering error'' NoData, s, calls)
            | Some filtered_iocs \<Rightarrow>
                (response_api_success
                   (JObj [(''total'', JInt (total filtered_iocs)),
                          (''data'', JList (map (IocSchemaForAPIV2_dump ctx)
                                              (items filtered_iocs))),
                          (''last_page'', JInt (pages filtered_iocs)),
                          (''current_page'', JInt (page filtered_iocs)),
                          (''next_page'',
                           if has_next filtered_iocs then JInt (next_num filtered_iocs)
                           else JNull)]),
                 s, calls)))"

fun add_ioc_to_case_except :: "error \<Rightarrow> response" where
  "add_ioc_to_case_except (BusinessProcessingError message d) =
     response_api_error message NoData"
| "add_ioc_to_case_except e = unhandled_exception e"

definition add_ioc_to_case ::
  "rest \<Rightarrow> int \<Rightarrow> json \<Rightarrow> store \<Rightarrow> response \<times> store \<times> call list" where
  "add_ioc_to_case ctx path_case_id request_json s =
     (let allowed = ac_fast_check_current_user_has_case_access ctx path_case_id [full_access];
          calls = [AccessCheck path_case_id [full_access] allowed]
      in if \<not> allowed then (ac_api_return_access_denied path_case_id, s, calls)
         else
           (case iocs_create (business ctx) request_json path_case_id s of
              (Inr (i, msg), s') \<Rightarrow>
                (response_api_created (IocSchemaForAPIV2_dump ctx i), s',
                 calls @ [Business ''iocs_create''])
            | (Inl e, s') \<Rightarrow>
                (add_ioc_to_case_except e, s', calls @ [Business ''iocs_create''])))"

fun delete_case_ioc_except :: "error \<Rightarrow> response" where
  "delete_case_ioc_except ObjectNotFoundError = response_api_not_found"
| "delete_case_ioc_except (BusinessProcessingError message d) =
     response_api_error message NoData"
| "delete_case_ioc_except e = unhandled_exception e"

definition delete_case_ioc ::
  "rest \<Rightarrow> int \<Rightarrow> int \<Rightarrow> store \<Rightarrow> response \<times> store \<times> call list" where
  "delete_case_ioc ctx path_case_id identifier s =
     (case iocs_get s identifier of
        Inl e \<Rightarrow> (delete_case_ioc_except e, s, [Business ''iocs_get''])
      | Inr i \<Rightarrow>
          (let allowed = ac_fast_check_current_user_has_case_access ctx (case_id i)
                           [full_access];
               calls = [Business ''iocs_get'', AccessCheck (case_id i) [full_access] allowed]
           in if \<not> allowed then (ac_api_return_access_denied (case_id i), s, calls)
              else if case_id i \<noteq> path_case_id
              then (delete_case_ioc_except ObjectNotFoundError, s, calls)
              else
                (case iocs_delete_entity ctx i s of
                   (Inr msg, s') \<Rightarrow>
                     (response_api_deleted, s', calls @ [Business ''iocs_delete''])
                 | (Inl e, s') \<Rightarrow>
                     (delete_case_ioc_except e, s', calls @ [Business ''iocs_delete'']))))"

fun get_case_ioc_except :: "error \<Rightarrow> response" where
  "get_case_ioc_except ObjectNotFoundError = response_api_not_found"
| "get_case_ioc_except e = unhandled_exception e"

definition get_case_ioc ::
  "rest \<Rightarrow> int \<Rightarrow> int \<Rightarrow> store \<Rightarrow> response \<times> store \<times> call list" where
  "get_case_ioc ctx path_case_id identifier s =
     (case iocs_get s identifier of
        Inl e \<Rightarrow> (get_case_ioc_except e, s, [Business ''iocs_get''])
      | Inr i \<Rightarrow>
          (let allowed = ac_fast_check_current_user_has_case_access ctx (case_id i)
                           [read_only, full_access];
               calls = [Business ''iocs_get'',
                        AccessCheck (case_id i) [read_only, full_access] allowed]
           in if \<not> allowed then (ac_api_return_access_denied (case_id i), s, calls)
              else if case_id i \<noteq> path_case_id
              then (get_case_ioc_except ObjectNotFoundError, s, calls)
              else (response_api_success (IocSchemaForAPIV2_dump ctx i), s, calls)))"

fun update_ioc_except :: "error \<Rightarrow> response" where
  "update_ioc_except ObjectNotFoundError = response_api_not_found"
| "update_ioc_except (BusinessProcessingError message d) = response_api_error message d"
| "update_ioc_except e = unhandled_exception e"

definition update_ioc ::
  "rest \<Rightarrow> int \<Rightarrow> int \<Rightarrow> json \<Rightarrow> store \<Rightarrow> response \<times> store \<times> call list" where
  "update_ioc ctx path_case_id identifier request_json s =
     (case iocs_get s identifier of
        Inl e \<Rightarrow> (update_ioc_except e, s, [Business ''iocs_get''])
      | Inr i \<Rightarrow>
          (let allowed = ac_fast_check_current_user_has_case_access ctx (case_id i)
                           [full_access];
               calls = [Business ''iocs_get'', AccessCheck (case_id i) [full_access] allowed]
           in if \<not> allowed then (ac_api_return_access_denied (case_id i), s, calls)
              else
                (case iocs_update_entity ctx i request_json s of
                   (Inr (i', msg), s') \<Rightarrow>
                     (response_api_success (IocSchemaForAPIV2_dump ctx i'), s',
                      calls @ [Business ''iocs_update''])
                 | (Inl e, s') \<Rightarrow>
                     (update_ioc_except e, s', calls @ [Business ''iocs_update'']))))"

subsection \<open>app.blueprints.rest.v2.case.api_v2_case_tasks_routes\<close>

fun case_add_task_except :: "error \<Rightarrow> response" where
  "case_add_task_except (BusinessProcessingError message d) =
     response_api_error message NoData"
| "case_add_task_except e = unhandled_exception e"

definition case_add_task ::
  "rest \<Rightarrow> int \<Rightarrow> json \<Rightarrow> store \<Rightarrow> response \<times> store \<times> call list" where
  "case_add_task ctx identifier request_json s =
     (let allowed = ac_fast_check_current_user_has_case_access ctx identifier [full_access];
          calls = [AccessCheck identifier [full_access] allowed]
      in if \<not> allowed then (ac_api_return_access_denied identifier, s, calls)
         else
           (case tasks_create ctx identifier request_json s of
              (Inr (msg, t), s') \<Rightarrow>
                (response_api_created (CaseTaskSchema_dump ctx t), s',
                 calls @ [Business ''tasks_create''])
            | (Inl e, s') \<Rightarrow>
                (case_add_task_except e, s', calls @ [Business ''tasks_create''])))"

fun case_task_view_except :: "error \<Rightarrow> response" where
  "case_task_view_except ObjectNotFoundError = response_api_not_found"
| "case_task_view_except e = unhandled_exception e"

definition case_task_view ::
  "rest \<Rightarrow> int \<Rightarrow> store \<Rightarrow> response \<times> store \<times> call list" where
  "case_task_view ctx identifier s =
     (case tasks_get s identifier of
        Inl e \<Rightarrow> (case_task_view_except e, s, [Business ''tasks_get''])
      | Inr t \<Rightarrow>
          (let allowed = ac_fast_check_current_user_has_case_access ctx (task_case_id t)
                           [read_only, full_access];
               calls = [Business ''tasks_get'',
                        AccessCheck (task_case_id t) [read_only, full_access] allowed]
           in if \<not> allowed then (ac_api_return_access_denied (task_case_id t), s, calls)
              else (response_api_created (CaseTaskSchema_dump ctx t), s, calls)))"

fun case_delete_task_except :: "error \<Rightarrow> response" where
  "case_delete_task_except ObjectNotFoundError = response_api_not_found"
| "case_delete_task_except (BusinessProcessingError message d) =
     response_api_error message NoData"
| "case_delete_task_except e = unhandled_exception e"

definition case_delete_task ::
  "rest \<Rightarrow> int \<Rightarrow> store \<Rightarrow> response \<times> store \<times> call list" where
  "case_delete_task ctx identifier s =
     (case tasks_get s identifier of
        Inl e \<Rightarrow> (case_delete_task_except e, s, [Business ''tasks_get''])
      | Inr t \<Rightarrow>
          (let allowed = ac_fast_check_current_user_has_case_access ctx (task_case_id t)
                           [full_access];
               calls = [Business ''tasks_get'',
                        AccessCheck (task_case_id t) [full_access] allowed]
           in if \<not> allowed then (ac_api_return_access_denied identifier, s, calls)
              else
                (case tasks_delete ctx t s of
                   (Inr msg, s') \<Rightarrow>
                     (response_api_deleted, s', calls @ [Business ''tasks_delete''])
                 | (Inl e, s') \<Rightarrow>
                     (case_delete_task_except e, s', calls @ [Business ''tasks_delete'']))))"

subsection \<open>app.blueprints.rest.v2.cases\<close>

definition get_cases ::
  "rest \<Rightarrow> request_args \<Rightarrow> store \<Rightarrow> response \<times> store \<times> call list" where
  "get_cases ctx args s =
     (case get_filtered_cases ctx
             \<lparr>fc_case_ids = args_identifiers args ''case_ids'',
              fc_case_customer_id = args_str args ''case_customer_id'',
              fc_case_name = args_str args ''case_name'',
              fc_case_description = args_str args ''case_description'',
              fc_case_classification_id = args_int args ''case_classification_id'',
              fc_case_owner_id = args_int args ''case_owner_id'',
              fc_case_opening_user_id = args_int args ''case_opening_user_id'',
              fc_case_severity_id = args_int args ''case_severity_id'',
              fc_case_state_id = args_int args ''case_state_id'',
              fc_case_soc_id = args_str args ''case_soc_id'',
              fc_start_open_date = args_str args ''start_open_date'',
              fc_end_open_date = args_str args ''end_open_date'',
              fc_search_value = [],
              fc_page = get_default (args_int args ''page'') 1,
              fc_per_page = get_default (args_int args ''per_page'') 10,
              fc_current_user_id = current_user_id (business ctx),
              fc_sort_by = args_str args ''order_by'',
              fc_sort_dir = get_default (args_str args ''sort_dir'') ''asc'',
              fc_is_open = args_boolean args ''is_open''\<rparr> s of
        None \<Rightarrow> (response_api_error ''Filtering error'' NoData, s, [])
      | Some filtered_cases \<Rightarrow>
          (response_api_success
             (JObj [(''total'', JInt (total filtered_cases)),
                    (''data'', JList (map (CaseSchemaForAPIV2_dump ctx)
                                        (items filtered_cases))),
                    (''last_page'', JInt (pages filtered_cases)),
                    (''current_page'', JInt (page filtered_cases)),
                    (''next_page'',
                     if has_next filtered_cases then JInt (next_num filtered_cases)
                     else JNull)]),
           s, []))"


subsection \<open>app.blueprints.rest.v2.dashboard\<close>

text \<open>
  \<open>list_own_tasks\<close>, the one view of the dashboard over a case-scoped entity: it lists
  the tasks of the current user, whatever their cases are.
\<close>

definition list_own_tasks :: "rest \<Rightarrow> store \<Rightarrow> response \<times> store \<times> call list" where
  "list_own_tasks ctx s =
     (let ct = list_user_tasks ctx s
      in (response_api_success (JList (map (CaseTaskSchema_dump ctx) ct)), s, []))"

subsection \<open>Routing\<close>

text \<open>
  The routes of the sources over IOCs and tasks, each with the arguments its URL rule
  and body carry, and the view each rule is bound to.
\<close>

datatype request =
    GET_case_iocs int request_args
  | POST_case_iocs int json
  | DELETE_case_ioc int int
  | GET_case_ioc int int
  | PUT_case_ioc int int json
  | POST_case_tasks int json
  | GET_task int
  | DELETE_task int
  | GET_dashboard_tasks_list

fun route :: "rest \<Rightarrow> request \<Rightarrow> store \<Rightarrow> response \<times> store \<times> call list" where
  "route ctx (GET_case_iocs c args) s = get_case_iocs ctx args c s"
| "route ctx (POST_case_iocs c body) s = add_ioc_to_case ctx c body s"
| "route ctx (DELETE_case_ioc c identifier) s = delete_case_ioc ctx c identifier s"
| "route ctx (GET_case_ioc c identifier) s = get_case_ioc ctx c identifier s"
| "route ctx (PUT_case_ioc c identifier body) s = update_ioc ctx c identifier body s"
| "route ctx (POST_case_tasks identifier body) s = case_add_task ctx identifier body s"
| "route ctx (GET_task identifier) s = case_task_view ctx identifier s"
| "route ctx (DELETE_task identifier) s = case_delete_task ctx identifier s"
| "route ctx GET_dashboard_tasks_list s = list_own_tasks ctx s"

section \<open>Properties of outcomes and call sequences\<close>

fun is_not_found :: "error + 'a \<Rightarrow> bool" where
  "is_not_found (Inl ObjectNotFoundError) = True"
| "is_not_found r = False"

fun is_business_error :: "error + 'a \<Rightarrow> bool" where
  "is_business_error (Inl (BusinessProcessingError message d)) = True"
| "is_business_error r = False"

fun is_validation_error :: "error + 'a \<Rightarrow> bool" where
  "is_validation_error (Inl (ValidationError messages)) = True"
| "is_validation_error r = False"

fun is_access_denied :: "response \<Rightarrow> bool" where
  "is_access_denied (ac_api_return_access_denied c) = True"
| "is_access_denied r = False"

text \<open>The responses that report success: they carry entity data or confirm a deletion.\<close>

fun is_success :: "response \<Rightarrow> bool" where
  "is_success (response_api_success d) = True"
| "is_success (response_api_created d) = True"
| "is_success response_api_deleted = True"
| "is_success r = False"

fun is_denial :: "call \<Rightarrow> bool" where
  "is_denial (AccessCheck c levels allowed) = (\<not> allowed)"
| "is_denial (Business name) = False"

definition denied :: "call list \<Rightarrow> bool" where
  "denied calls = list_ex is_denial calls"









section \<open>A concrete instance\<close>

text \<open>
  An instance of the collaborators, to run the operations on examples: hooks that hand
  their payload back, a schema with the required fields \<open>ioc_value\<close> and
  \<open>ioc_type_id\<close>, the IOC types 1 and 2, and a user with identifier 1 who holds access
  to case 5 only and to whom every task is assigned.
\<close>

definition missing :: "string \<Rightarrow> field_errors" where
  "missing field = [(field, [''Missing data for required field.''])]"

definition invalid :: "string \<Rightarrow> field_errors" where
  "invalid field = [(field, [''Not a valid value.''])]"

definition example_schema_load :: "json \<Rightarrow> field_errors + ioc" where
  "example_schema_load d =
     (case d ''ioc_value'' of
        Some (JStr v) \<Rightarrow>
          (case d ''ioc_type_id'' of
             Some (JInt t) \<Rightarrow>
               Inr \<lparr>ioc_id = 0, ioc_uuid = [], ioc_value = v, ioc_type_id = t,
                    ioc_description = [], ioc_tlp_id = 0, ioc_tags = [], ioc_misp = [],
                    user_id = 0,
                    case_id = (case d ''case_id'' of Some (JInt c) \<Rightarrow> c | _ \<Rightarrow> 0)\<rparr>
           | Some other \<Rightarrow> Inl (invalid ''ioc_type_id'')
           | None \<Rightarrow> Inl (missing ''ioc_type_id''))
      | Some other \<Rightarrow> Inl (invalid ''ioc_value'')
      | None \<Rightarrow> Inl (missing ''ioc_value''))"

definition example_schema_load_instance :: "json \<Rightarrow> ioc \<Rightarrow> field_errors + ioc" where
  "example_schema_load_instance d i =
     (case d ''ioc_value'' of
        Some (JStr v) \<Rightarrow> Inr (i\<lparr>ioc_value := v\<rparr>)
      | Some other \<Rightarrow> Inl (invalid ''ioc_value'')
      | None \<Rightarrow> Inr i)"

definition example_env :: env where
  "example_env =
     \<lparr>current_user_id = 1,
      hook_on_preload_ioc_create = (\<lambda>d c. Some d),
      hook_on_postload_ioc_create = (\<lambda>i c. Some i),
      hook_on_preload_ioc_update = (\<lambda>d c. Some d),
      hook_on_postload_ioc_update = (\<lambda>i c. Some i),
      schema_load = example_schema_load,
      schema_load_instance = example_schema_load_instance,
      check_ioc_type_id = (\<lambda>t. t = 1 \<or> t = 2)\<rparr>"

definition example_page :: "'a list \<Rightarrow> int \<Rightarrow> 'a pagination" where
  "example_page rows n =
     \<lparr>items = rows, total = int (length rows), pages = 2, page = n,
      has_next = (n < 2), next_num = n + 1\<rparr>"

definition example_rest :: rest where
  "example_rest =
     \<lparr>business = example_env,
      ac_fast_check_current_user_has_case_access = (\<lambda>c levels. c = 5),
      IocSchemaForAPIV2_dump =
        (\<lambda>i. JObj [(''ioc_id'', JInt (ioc_id i)), (''ioc_value'', JStr (ioc_value i)),
                   (''case_id'', JInt (case_id i))]),
      CaseTaskSchema_dump = (\<lambda>t. JObj [(''task_id'', JInt (task_id t))]),
      CaseSchemaForAPIV2_dump = (\<lambda>c. JObj [(''case_id'', JInt (cases_case_id c))]),
      get_filtered_iocs =
        (\<lambda>kw s. if fi_per_page kw \<le> 0 then None
                 else Some (example_page (filter (\<lambda>r. case_id r = fi_caseid kw) (ioc_table s))
                              (fi_page kw))),
      get_filtered_cases =
        (\<lambda>kw s. if fc_per_page kw \<le> 0 then None
                 else Some (example_page [\<lparr>cases_case_id = 5, cases_name = ''five''\<rparr>]
                              (fc_page kw))),
      iocs_update_entity = (\<lambda>i. iocs_update example_env (ioc_id i)),
      iocs_delete_entity = (\<lambda>i. iocs_delete example_env (ioc_id i)),
      tasks_create =
        (\<lambda>c body s. (Inl (BusinessProcessingError ''Data error'' NoData), s)),
      tasks_delete =
        (\<lambda>t s. (Inr ''Task deleted'',
                 s\<lparr>task_table := filter (\<lambda>r. task_id r \<noteq> task_id t) (task_table s)\<rparr>)),
      list_user_tasks = task_table\<rparr>"

definition example_ioc :: "int \<Rightarrow> int \<Rightarrow> string \<Rightarrow> ioc" where
  "example_ioc identifier c v =
     \<lparr>ioc_id = identifier, ioc_uuid = [], ioc_value = v, ioc_type_id = 1,
      ioc_description = [], ioc_tlp_id = 0, ioc_tags = [], ioc_misp = [],
      user_id = 1, case_id = c\<rparr>"

definition empty_store :: store where
  "empty_store = \<lparr>ioc_table = [], task_table = [], effects = []\<rparr>"

definition example_store :: store where
  "example_store =
     \<lparr>ioc_table = [example_ioc 1 5 ''1.2.3.4'', example_ioc 2 6 ''evil.example''],
      task_table = [\<lparr>task_id = 1, task_case_id = 5\<rparr>, \<lparr>task_id = 2, task_case_id = 6\<rparr>],
      effects = []\<rparr>"

definition no_args :: request_args where
  "no_args =
     \<lparr>args_int = (\<lambda>k. None), args_str = (\<lambda>k. None),
      args_identifiers = (\<lambda>k. None), args_boolean = (\<lambda>k. None)\<rparr>"


section \<open>The paginated payload in the words of the spec\<close>

text \<open>
  The payload of a paginated list: \<open>total\<close>, \<open>data\<close>, \<open>last_page\<close>,
  \<open>current_page\<close> and \<open>next_page\<close>, the last one the number of the next page when
  there is one and null otherwise.
\<close>

definition page_payload :: "('a \<Rightarrow> jvalue) \<Rightarrow> 'a pagination \<Rightarrow> jvalue" where
  "page_payload dump p =
     JObj [(''total'', JInt (total p)),
           (''data'', JList (map dump (items p))),
           (''last_page'', JInt (pages p)),
           (''current_page'', JInt (page p)),
           (''next_page'', if has_next p then JInt (next_num p) else JNull)]"

text \<open>Request bodies for the examples.\<close>

definition new_ioc_body :: json where
  "new_ioc_body = [''ioc_value'' \<mapsto> JStr ''1.2.3.4'', ''ioc_type_id'' \<mapsto> JInt 1]"

definition no_value_body :: json where
  "no_value_body = [''ioc_type_id'' \<mapsto> JInt 1]"

definition new_value_body :: json where
  "new_value_body = [''ioc_value'' \<mapsto> JStr ''4.3.2.1'']"

definition bad_value_body :: json where
  "bad_value_body = [''ioc_value'' \<mapsto> JInt 7]"

text \<open>The same collaborators with post-commit hooks that return no payload.\<close>

definition silent_env :: env where
  "silent_env =
     example_env\<lparr>hook_on_postload_ioc_create := \<lambda>i c. None,
                 hook_on_postload_ioc_update := \<lambda>i c. None\<rparr>"

text \<open>Query arguments that ask for the second page.\<close>

definition second_page :: request_args where
  "second_page = no_args\<lparr>args_int := (\<lambda>k. if k = ''page'' then Some 2 else None)\<rparr>"

section \<open>Evaluation and helper lemmas\<close>

lemmas example_defs =
  example_env_def example_rest_def example_store_def example_ioc_def empty_store_def
  example_schema_load_def example_schema_load_instance_def missing_def invalid_def
  example_page_def no_args_def new_ioc_body_def no_value_body_def new_value_body_def
  bad_value_body_def

lemmas business_defs =
  iocs_create_def iocs_load_def iocs_update_def iocs_update_try_def iocs_delete_def
  get_ioc_def next_ioc_id_def add_ioc_def delete_ioc_def update_ioc_state_def
  db_session_commit_def track_activity_def

lemmas view_defs =
  get_case_iocs_def add_ioc_to_case_def delete_case_ioc_def get_case_ioc_def
  update_ioc_def case_add_task_def case_task_view_def case_delete_task_def
  list_own_tasks_def iocs_get_def tasks_get_def



lemma route_denied_unchanged:
  "denied (snd (snd (route ctx req s))) \<Longrightarrow>
     is_access_denied (fst (route ctx req s)) \<and> fst (snd (route ctx req s)) = s"
  by (cases req)
    (auto simp: view_defs Let_def denied_def
      split: sum.splits prod.splits option.splits if_splits)


lemma create_effects:
  "(case iocs_create env j c s of
      (Inr (i, msg), s') \<Rightarrow>
        (\<exists>d loaded.
           hook_on_preload_ioc_create env j c = Some d \<and>
           schema_load env (d(''case_id'' \<mapsto> JInt c)) = Inr loaded \<and>
           hook_on_postload_ioc_create env
             (loaded\<lparr>ioc_id := next_ioc_id s, user_id := current_user_id env\<rparr>) c = Some i \<and>
           s' = s\<lparr>ioc_table :=
                    ioc_table s @
                    [loaded\<lparr>ioc_id := next_ioc_id s, user_id := current_user_id env\<rparr>],
                  effects :=
                    effects s @
                    [IocInserted
                       (loaded\<lparr>ioc_id := next_ioc_id s, user_id := current_user_id env\<rparr>),
                     ActivityTracked c (''added ioc '' @ quoted (ioc_value i))]\<rparr>) \<and>
        activity_entries s' =
          activity_entries s @ [(c, ''added ioc '' @ quoted (ioc_value i))]
    | (Inl e, s') \<Rightarrow> activity_entries s' = activity_entries s)"
  by (simp add: iocs_create_def iocs_load_def add_ioc_def track_activity_def Let_def
      activity_entries_def split: option.split sum.split)

lemma update_effects:
  "(case iocs_update env n j s of
      (Inr (i, msg), s') \<Rightarrow>
        (\<exists>stored h.
           get_ioc s n = Some stored \<and>
           hook_on_postload_ioc_update env i (case_id i) = Some h \<and>
           s' = s\<lparr>ioc_table := replace_row n i (ioc_table s),
                  effects :=
                    effects s @
                    [IocStateUpdated (case_id i), IocCommitted i,
                     ActivityTracked (case_id i)
                       (''updated ioc '' @ quoted (ioc_value h))]\<rparr> \<and>
           activity_entries s' =
             activity_entries s @
             [(case_id i, ''updated ioc '' @ quoted (ioc_value h))])
    | (Inl e, s') \<Rightarrow> activity_entries s' = activity_entries s)"
  by (simp add: iocs_update_def iocs_update_try_def update_ioc_state_def
      db_session_commit_def track_activity_def Let_def activity_entries_def
      split: option.split sum.split)

lemma delete_effects:
  "(case iocs_delete env n s of
      (Inr msg, s') \<Rightarrow>
        (\<exists>i. get_ioc s n = Some i \<and>
           s' = s\<lparr>ioc_table := filter (\<lambda>r. ioc_id r \<noteq> ioc_id i) (ioc_table s),
                  effects :=
                    effects s @
                    [IocDeleted (ioc_id i),
                     ActivityTracked (case_id i)
                       (''deleted IOC '' @ quoted (ioc_value i))]\<rparr> \<and>
           activity_entries s' =
             activity_entries s @ [(case_id i, ''deleted IOC '' @ quoted (ioc_value i))])
    | (Inl e, s') \<Rightarrow> activity_entries s' = activity_entries s)"
  by (simp add: iocs_delete_def delete_ioc_def track_activity_def Let_def
      activity_entries_def split: option.split sum.split)

lemma supplied_conditions_length:
  "length (concat (map (\<lambda>(c, arg). condition_if_supplied c (arg kw)) args)) =
   length (filter (\<lambda>(c, arg). arg kw \<noteq> None) args)"
  by (induction args) (auto split: option.split)

lemma condition_if_supplied_holds:
  "list_all (\<lambda>cond. holds cond r) (condition_if_supplied c v) = constraint c v r"
  by (cases v) simp_all

lemma supplied_conditions_hold:
  "list_all (\<lambda>cond. holds cond r)
     (concat (map (\<lambda>(c, arg). condition_if_supplied c (arg kw)) args)) =
   list_all (\<lambda>(c, arg). constraint c (arg kw) r) args"
  by (induction args) (auto simp: condition_if_supplied_holds)

lemma build_supplied:
  "fst (iocs_build_filter_query kw) = Query_filter (supplied_conditions kw)"
  by (simp add: iocs_build_filter_query_def supplied_conditions_def filter_arguments_def
      split: option.split)

section \<open>The filter query\<close>

text \<open>
  C7, as amended. The query of \<open>iocs_build_filter_query\<close> holds exactly the equality
  conditions of the arguments \<open>ioc_id\<close>, \<open>ioc_uuid\<close>, \<open>ioc_value\<close>, \<open>ioc_type_id\<close>,
  \<open>ioc_description\<close>, \<open>ioc_tlp_id\<close>, \<open>ioc_tags\<close>, \<open>ioc_misp\<close> and \<open>user_id\<close> that
  are supplied, one for each, in this order; a row is selected when it meets the
  condition of every supplied one of these arguments, and an omitted argument imposes
  no constraint. The argument \<open>linked_cases\<close> is not among them.
\<close>

theorem filter_query_conditions:
  "fst (iocs_build_filter_query kw) = Query_filter (supplied_conditions kw) \<and>
   length (conditions_of (fst (iocs_build_filter_query kw))) =
     length (filter (\<lambda>(c, arg). arg kw \<noteq> None) filter_arguments) \<and>
   query_matches (fst (iocs_build_filter_query kw)) r =
     list_all (\<lambda>(c, arg). constraint c (arg kw) r) filter_arguments"
  unfolding build_supplied query_matches_def
  by (simp only: conditions_of.simps supplied_conditions_def supplied_conditions_length
      supplied_conditions_hold)

text \<open>
  An instance: with a value and a type supplied, the query holds these two conditions
  and selects the rows that have this value and this type.
\<close>

theorem filter_query_conditions_witness:
  "fst (iocs_build_filter_query
          (no_filters\<lparr>kw_ioc_value := Some (PStr ''1.2.3.4''),
                      kw_ioc_type_id := Some (PInt 1)\<rparr>)) =
     Query_filter [Eq Ioc_ioc_value (PStr ''1.2.3.4''), Eq Ioc_ioc_type_id (PInt 1)] \<and>
   query_matches
     (fst (iocs_build_filter_query
             (no_filters\<lparr>kw_ioc_value := Some (PStr ''1.2.3.4''),
                         kw_ioc_type_id := Some (PInt 1)\<rparr>)))
     (example_ioc 1 5 ''1.2.3.4'')"
  using filter_query_conditions
    [of "no_filters\<lparr>kw_ioc_value := Some (PStr ''1.2.3.4''),
                     kw_ioc_type_id := Some (PInt 1)\<rparr>"
        "example_ioc 1 5 ''1.2.3.4''"]
  by (simp add: supplied_conditions_def filter_arguments_def no_filters_def example_ioc_def
      query_matches_def)

text \<open>
  C7 as stated fails: a call that supplies \<open>linked_cases\<close> alone supplies one argument,
  and the query has no condition.
\<close>

theorem linked_cases_supplied_no_condition:
  "supplied_count (no_filters\<lparr>kw_linked_cases := Some (PInt 1)\<rparr>) = 1 \<and>
   conditions_of
     (fst (iocs_build_filter_query (no_filters\<lparr>kw_linked_cases := Some (PInt 1)\<rparr>))) = []"
  by (simp add: iocs_build_filter_query_def supplied_count_def filter_arguments_def
      no_filters_def)

text \<open>
  C10. Whatever the other arguments are, the query built with \<open>linked_cases\<close> set to
  any value is the query built without it; the argument only decides whether the
  deprecation warning is logged.
\<close>

theorem linked_cases_ignored:
  "fst (iocs_build_filter_query (kw\<lparr>kw_linked_cases := x\<rparr>)) =
     fst (iocs_build_filter_query kw) \<and>
   snd (iocs_build_filter_query kw) =
     (if kw_linked_cases kw = None then [] else [linked_cases_warning])"
  by (simp add: iocs_build_filter_query_def Let_def split: option.split)

theorem linked_cases_ignored_witness:
  "fst (iocs_build_filter_query
          (no_filters\<lparr>kw_user_id := Some (PInt 1), kw_linked_cases := Some (PInt 7)\<rparr>)) =
     Query_filter [Eq Ioc_user_id (PInt 1)] \<and>
   snd (iocs_build_filter_query
          (no_filters\<lparr>kw_user_id := Some (PInt 1), kw_linked_cases := Some (PInt 7)\<rparr>)) =
     [linked_cases_warning]"
  using linked_cases_ignored
    [where kw = "no_filters\<lparr>kw_user_id := Some (PInt 1)\<rparr>" and x = "Some (PInt 7)"]
  by (simp add: iocs_build_filter_query_def no_filters_def)

section \<open>Authorization in the views\<close>




text \<open>
  C9. For get, update and delete of an IOC by identifier, the access check is made on
  the case of the fetched IOC, whatever the case in the path is, and before anything
  else: a user without the required access on that case receives the access-denied
  response for that case, and the store is left as it was.
\<close>

theorem access_checked_on_owning_case:
  assumes "get_ioc s identifier = Some i"
  shows
    "(\<not> ac_fast_check_current_user_has_case_access ctx (case_id i) [read_only, full_access]
        \<longrightarrow> get_case_ioc ctx c identifier s =
              (ac_api_return_access_denied (case_id i), s,
               [Business ''iocs_get'',
                AccessCheck (case_id i) [read_only, full_access] False])) \<and>
     (\<not> ac_fast_check_current_user_has_case_access ctx (case_id i) [full_access]
        \<longrightarrow> update_ioc ctx c identifier j s =
              (ac_api_return_access_denied (case_id i), s,
               [Business ''iocs_get'', AccessCheck (case_id i) [full_access] False]) \<and>
            delete_case_ioc ctx c identifier s =
              (ac_api_return_access_denied (case_id i), s,
               [Business ''iocs_get'', AccessCheck (case_id i) [full_access] False]))"
  using assms
  by (simp add: delete_case_ioc_def get_case_ioc_def update_ioc_def iocs_get_def Let_def)

text \<open>
  An instance: IOC 2 belongs to case 6, on which the user holds no access; the path
  names case 5, on which the user does. All three views answer access-denied for
  case 6.
\<close>

theorem access_checked_on_owning_case_witness:
  "get_ioc example_store 2 = Some (example_ioc 2 6 ''evil.example'') \<and>
   fst (get_case_ioc example_rest 5 2 example_store) = ac_api_return_access_denied 6 \<and>
   fst (update_ioc example_rest 5 2 new_value_body example_store) =
     ac_api_return_access_denied 6 \<and>
   delete_case_ioc example_rest 5 2 example_store =
     (ac_api_return_access_denied 6, example_store,
      [Business ''iocs_get'', AccessCheck 6 [full_access] False])"
proof -
  have f: "get_ioc example_store 2 = Some (example_ioc 2 6 ''evil.example'')"
    by (simp add: get_ioc_def example_store_def example_ioc_def)
  have c: "case_id (example_ioc 2 6 ''evil.example'') = 6"
    by (simp add: example_ioc_def)
  have n: "\<not> ac_fast_check_current_user_has_case_access example_rest 6 levels" for levels
    by (simp add: example_rest_def)
  from access_checked_on_owning_case [OF f, of example_rest 5 new_value_body] f c n
  show ?thesis by simp
qed

text \<open>
  C6. When an IOC exists, its case differs from the case in the path, and the user
  holds the required access on the IOC's case, deleting it and getting it both answer
  not-found; the store is left as it was (the IOC is still there) and \<open>iocs_delete\<close>
  is not called.
\<close>

theorem case_mismatch_not_found:
  assumes "get_ioc s identifier = Some i" and "case_id i \<noteq> c"
  shows
    "(ac_fast_check_current_user_has_case_access ctx (case_id i) [full_access]
        \<longrightarrow> delete_case_ioc ctx c identifier s =
              (response_api_not_found, s,
               [Business ''iocs_get'', AccessCheck (case_id i) [full_access] True]) \<and>
            get_ioc (fst (snd (delete_case_ioc ctx c identifier s))) identifier = Some i) \<and>
     (ac_fast_check_current_user_has_case_access ctx (case_id i) [read_only, full_access]
        \<longrightarrow> get_case_ioc ctx c identifier s =
              (response_api_not_found, s,
               [Business ''iocs_get'',
                AccessCheck (case_id i) [read_only, full_access] True]))"
  using assms
  by (simp add: delete_case_ioc_def get_case_ioc_def iocs_get_def Let_def)

text \<open>
  An instance: IOC 1 belongs to case 5, on which the user holds access; the path names
  case 6.
\<close>

theorem case_mismatch_not_found_witness:
  "get_ioc example_store 1 = Some (example_ioc 1 5 ''1.2.3.4'') \<and>
   delete_case_ioc example_rest 6 1 example_store =
     (response_api_not_found, example_store,
      [Business ''iocs_get'', AccessCheck 5 [full_access] True]) \<and>
   get_ioc (fst (snd (delete_case_ioc example_rest 6 1 example_store))) 1 =
     Some (example_ioc 1 5 ''1.2.3.4'') \<and>
   fst (get_case_ioc example_rest 6 1 example_store) = response_api_not_found"
proof -
  have f: "get_ioc example_store 1 = Some (example_ioc 1 5 ''1.2.3.4'')"
    by (simp add: get_ioc_def example_store_def example_ioc_def)
  have c: "case_id (example_ioc 1 5 ''1.2.3.4'') = 5"
    by (simp add: example_ioc_def)
  have m: "case_id (example_ioc 1 5 ''1.2.3.4'') \<noteq> 6"
    by (simp add: example_ioc_def)
  have a: "ac_fast_check_current_user_has_case_access example_rest 5 levels" for levels
    by (simp add: example_rest_def)
  from case_mismatch_not_found [OF f m, of example_rest] f c a
  show ?thesis by simp
qed

section \<open>The activity log\<close>

text \<open>
  C2. A successful \<open>iocs_create\<close>, \<open>iocs_update\<close> or \<open>iocs_delete\<close> leaves the
  store with the row written to the table (the loaded row appended, the fetched row
  replaced by the returned entity, the fetched row removed) and with exactly one new
  activity entry, which is the last effect, after the write. For a create the entry
  names the case the IOC was created in, for an update the case of the committed
  entity, for a delete the case of the deleted entity. A failed operation appends no
  entry, and neither does a request that the access check denies.
\<close>

theorem one_activity_after_persist:
  "(case iocs_create env j c s of
      (Inr (i, msg), s') \<Rightarrow>
        (\<exists>d loaded.
           hook_on_preload_ioc_create env j c = Some d \<and>
           schema_load env (d(''case_id'' \<mapsto> JInt c)) = Inr loaded \<and>
           hook_on_postload_ioc_create env
             (loaded\<lparr>ioc_id := next_ioc_id s, user_id := current_user_id env\<rparr>) c = Some i \<and>
           s' = s\<lparr>ioc_table :=
                    ioc_table s @
                    [loaded\<lparr>ioc_id := next_ioc_id s, user_id := current_user_id env\<rparr>],
                  effects :=
                    effects s @
                    [IocInserted
                       (loaded\<lparr>ioc_id := next_ioc_id s, user_id := current_user_id env\<rparr>),
                     ActivityTracked c (''added ioc '' @ quoted (ioc_value i))]\<rparr>) \<and>
        activity_entries s' =
          activity_entries s @ [(c, ''added ioc '' @ quoted (ioc_value i))]
    | (Inl e, s') \<Rightarrow> activity_entries s' = activity_entries s) \<and>
   (case iocs_update env n j s of
      (Inr (i, msg), s') \<Rightarrow>
        (\<exists>stored h.
           get_ioc s n = Some stored \<and>
           hook_on_postload_ioc_update env i (case_id i) = Some h \<and>
           s' = s\<lparr>ioc_table := replace_row n i (ioc_table s),
                  effects :=
                    effects s @
                    [IocStateUpdated (case_id i), IocCommitted i,
                     ActivityTracked (case_id i)
                       (''updated ioc '' @ quoted (ioc_value h))]\<rparr> \<and>
           activity_entries s' =
             activity_entries s @
             [(case_id i, ''updated ioc '' @ quoted (ioc_value h))])
    | (Inl e, s') \<Rightarrow> activity_entries s' = activity_entries s) \<and>
   (case iocs_delete env n s of
      (Inr msg, s') \<Rightarrow>
        (\<exists>i. get_ioc s n = Some i \<and>
           s' = s\<lparr>ioc_table := filter (\<lambda>r. ioc_id r \<noteq> ioc_id i) (ioc_table s),
                  effects :=
                    effects s @
                    [IocDeleted (ioc_id i),
                     ActivityTracked (case_id i)
                       (''deleted IOC '' @ quoted (ioc_value i))]\<rparr> \<and>
           activity_entries s' =
             activity_entries s @ [(case_id i, ''deleted IOC '' @ quoted (ioc_value i))])
    | (Inl e, s') \<Rightarrow> activity_entries s' = activity_entries s) \<and>
   (denied (snd (snd (route ctx req s))) \<longrightarrow>
      activity_entries (fst (snd (route ctx req s))) = activity_entries s)"
  by (intro conjI create_effects update_effects delete_effects)
    (simp add: route_denied_unchanged)

text \<open>
  Instances on the examples: a create in case 5, an update and a delete of IOC 1 of
  case 5 each write the table and leave one entry for case 5; deleting the unknown
  IOC 9 and a create in case 6, which is denied, leave none.
\<close>

theorem one_activity_after_persist_witness:
  "ioc_table (snd (iocs_create example_env new_ioc_body 5 empty_store)) =
     [example_ioc 1 5 ''1.2.3.4''] \<and>
   activity_entries (snd (iocs_create example_env new_ioc_body 5 empty_store)) =
     [(5, ''added ioc '' @ quoted ''1.2.3.4'')] \<and>
   ioc_table (snd (iocs_update example_env 1 new_value_body example_store)) =
     [example_ioc 1 5 ''4.3.2.1'', example_ioc 2 6 ''evil.example''] \<and>
   activity_entries (snd (iocs_update example_env 1 new_value_body example_store)) =
     [(5, ''updated ioc '' @ quoted ''4.3.2.1'')] \<and>
   ioc_table (snd (iocs_delete example_env 1 example_store)) =
     [example_ioc 2 6 ''evil.example''] \<and>
   activity_entries (snd (iocs_delete example_env 1 example_store)) =
     [(5, ''deleted IOC '' @ quoted ''1.2.3.4'')] \<and>
   activity_entries (snd (iocs_delete example_env 9 example_store)) = [] \<and>
   denied (snd (snd (route example_rest (POST_case_iocs 6 new_ioc_body) example_store))) \<and>
   activity_entries
     (fst (snd (route example_rest (POST_case_iocs 6 new_ioc_body) example_store))) = []"
proof -
  have c: "iocs_create example_env new_ioc_body 5 empty_store =
      (Inr (example_ioc 1 5 ''1.2.3.4'', ''IOC added''),
       \<lparr>ioc_table = [example_ioc 1 5 ''1.2.3.4''], task_table = [],
        effects = [IocInserted (example_ioc 1 5 ''1.2.3.4''),
                   ActivityTracked 5 (''added ioc '' @ quoted ''1.2.3.4'')]\<rparr>)"
    by (simp add: business_defs example_defs Let_def)
  have u: "iocs_update example_env 1 new_value_body example_store =
      (Inr (example_ioc 1 5 ''4.3.2.1'', ''Updated ioc '' @ quoted ''4.3.2.1''),
       example_store
       \<lparr>ioc_table := [example_ioc 1 5 ''4.3.2.1'', example_ioc 2 6 ''evil.example''],
        effects := [IocStateUpdated 5, IocCommitted (example_ioc 1 5 ''4.3.2.1''),
                    ActivityTracked 5 (''updated ioc '' @ quoted ''4.3.2.1'')]\<rparr>)"
    by (simp add: business_defs example_defs Let_def)
  have d: "iocs_delete example_env 1 example_store =
      (Inr ''IOC 1 deleted'',
       example_store
       \<lparr>ioc_table := [example_ioc 2 6 ''evil.example''],
        effects := [IocDeleted 1,
                    ActivityTracked 5 (''deleted IOC '' @ quoted ''1.2.3.4'')]\<rparr>)"
    by (simp add: business_defs example_defs Let_def str_int_def)
  have n: "iocs_delete example_env 9 example_store =
      (Inl (BusinessProcessingError ''Not a valid IOC for this case'' NoData),
       example_store)"
    by (simp add: business_defs example_defs)
  have f: "get_ioc example_store 1 = Some (example_ioc 1 5 ''1.2.3.4'')"
    by (simp add: get_ioc_def example_store_def example_ioc_def)
  have r: "denied
      (snd (snd (route example_rest (POST_case_iocs 6 new_ioc_body) example_store)))"
    by (simp add: view_defs example_rest_def Let_def denied_def)
  have a: "activity_entries example_store = []" "activity_entries empty_store = []"
    by (simp_all add: activity_entries_def example_store_def empty_store_def)
  note t = one_activity_after_persist
    [where ctx = example_rest and req = "POST_case_iocs 6 new_ioc_body"]
  have 1: "activity_entries (snd (iocs_create example_env new_ioc_body 5 empty_store)) =
      [(5, ''added ioc '' @ quoted ''1.2.3.4'')]"
    using t [where env = example_env and j = new_ioc_body and c = 5 and s = empty_store
        and n = 1, THEN conjunct1]
    unfolding c
    by (auto simp: a example_ioc_def)
  have 2: "activity_entries (snd (iocs_update example_env 1 new_value_body example_store)) =
      [(5, ''updated ioc '' @ quoted ''4.3.2.1'')]"
    using t [where env = example_env and j = new_value_body and c = 5
        and s = example_store and n = 1, THEN conjunct2, THEN conjunct1]
    unfolding u
    by (auto simp: a example_env_def example_ioc_def)
  have 3: "activity_entries (snd (iocs_delete example_env 1 example_store)) =
      [(5, ''deleted IOC '' @ quoted ''1.2.3.4'')]"
    using t [where env = example_env and j = new_value_body and c = 5
        and s = example_store and n = 1, THEN conjunct2, THEN conjunct2, THEN conjunct1]
    unfolding d f
    by (auto simp: a example_ioc_def)
  have 4: "activity_entries (snd (iocs_delete example_env 9 example_store)) = []"
    using t [where env = example_env and j = new_value_body and c = 5
        and s = example_store and n = 9, THEN conjunct2, THEN conjunct2, THEN conjunct1]
    unfolding n
    by (simp add: a)
  have 5: "activity_entries
      (fst (snd (route example_rest (POST_case_iocs 6 new_ioc_body) example_store))) = []"
    using t [where env = example_env and j = new_value_body and c = 5
        and s = example_store and n = 9] r a
    by simp
  have 6: "ioc_table (snd (iocs_create example_env new_ioc_body 5 empty_store)) =
      [example_ioc 1 5 ''1.2.3.4'']"
    "ioc_table (snd (iocs_update example_env 1 new_value_body example_store)) =
      [example_ioc 1 5 ''4.3.2.1'', example_ioc 2 6 ''evil.example'']"
    "ioc_table (snd (iocs_delete example_env 1 example_store)) =
      [example_ioc 2 6 ''evil.example'']"
    by (simp_all add: c u d)
  from 1 2 3 4 5 6 r show ?thesis by blast
qed

section \<open>Failures of the business operations\<close>

text \<open>
  C3 as stated fails: with a post-create hook that returns no payload, the IOC is in
  the table and the caller receives a \<open>BusinessProcessingError\<close>: the operation is
  reported as failed.
\<close>

theorem create_reported_failed_after_persist:
  "ioc_table (snd (iocs_create silent_env new_ioc_body 5 empty_store)) =
     [example_ioc 1 5 ''1.2.3.4''] \<and>
   fst (iocs_create silent_env new_ioc_body 5 empty_store) =
     Inl (BusinessProcessingError ''Unable to create IOC for internal reasons'' NoData)"
  by (simp add: business_defs silent_env_def example_defs Let_def)

text \<open>
  C3, as amended. When a create or an update has written its row and the post-commit
  hook returns no payload, the written row stays in the table (nothing is rolled back)
  and no activity entry is recorded, but the operation is reported to the caller as
  failed, with a \<open>BusinessProcessingError\<close>.
\<close>

theorem post_hook_without_payload:
  "(hook_on_preload_ioc_create env j c = Some d \<and>
    schema_load env (d(''case_id'' \<mapsto> JInt c)) = Inr i \<and>
    check_ioc_type_id env (ioc_type_id i) \<and>
    hook_on_postload_ioc_create env
      (i\<lparr>ioc_id := next_ioc_id s, user_id := current_user_id env\<rparr>) c = None
    \<longrightarrow>
      fst (iocs_create env j c s) =
        Inl (BusinessProcessingError ''Unable to create IOC for internal reasons'' NoData) \<and>
      ioc_table (snd (iocs_create env j c s)) =
        ioc_table s @ [i\<lparr>ioc_id := next_ioc_id s, user_id := current_user_id env\<rparr>] \<and>
      activity_entries (snd (iocs_create env j c s)) = activity_entries s) \<and>
   (get_ioc s n = Some i' \<and>
    hook_on_preload_ioc_update env j' (case_id i') = Some d' \<and>
    schema_load_instance env
      (d'(''ioc_id'' \<mapsto> JInt n, ''case_id'' \<mapsto> JInt (case_id i'))) i' = Inr loaded \<and>
    check_ioc_type_id env (ioc_type_id loaded) \<and>
    hook_on_postload_ioc_update env (loaded\<lparr>user_id := current_user_id env\<rparr>)
      (case_id loaded) = None
    \<longrightarrow>
      is_business_error (fst (iocs_update env n j' s)) \<and>
      ioc_table (snd (iocs_update env n j' s)) =
        replace_row n (loaded\<lparr>user_id := current_user_id env\<rparr>) (ioc_table s) \<and>
      activity_entries (snd (iocs_update env n j' s)) = activity_entries s)"
  by (simp add: iocs_create_def iocs_load_def add_ioc_def iocs_update_def
      iocs_update_try_def update_ioc_state_def db_session_commit_def Let_def
      activity_entries_def)

text \<open>
  An instance with hooks that return no payload after the commit: the create in case 5
  and the update of IOC 1 are both reported as failed, the new row and the new value
  are in the table, and the activity log is empty.
\<close>

theorem post_hook_without_payload_witness:
  "is_business_error (fst (iocs_create silent_env new_ioc_body 5 empty_store)) \<and>
   ioc_table (snd (iocs_create silent_env new_ioc_body 5 empty_store)) =
     [example_ioc 1 5 ''1.2.3.4''] \<and>
   activity_entries (snd (iocs_create silent_env new_ioc_body 5 empty_store)) = [] \<and>
   is_business_error (fst (iocs_update silent_env 1 new_value_body example_store)) \<and>
   ioc_table (snd (iocs_update silent_env 1 new_value_body example_store)) =
     [example_ioc 1 5 ''4.3.2.1'', example_ioc 2 6 ''evil.example''] \<and>
   activity_entries (snd (iocs_update silent_env 1 new_value_body example_store)) = []"
  using post_hook_without_payload
    [where env = silent_env and j = new_ioc_body and c = 5 and d = new_ioc_body
       and i = "example_ioc 0 5 ''1.2.3.4''\<lparr>user_id := 0\<rparr>" and s = empty_store]
    post_hook_without_payload
    [where env = silent_env and s = example_store and n = 1
       and i' = "example_ioc 1 5 ''1.2.3.4''" and j' = new_value_body
       and d' = new_value_body and loaded = "example_ioc 1 5 ''4.3.2.1''"]
  by (simp add: silent_env_def example_defs get_ioc_def next_ioc_id_def
      activity_entries_def)

text \<open>
  C4 as stated fails for the business operations: deleting or updating the unknown
  IOC 9 ends in a \<open>BusinessProcessingError\<close>, not in a not-found outcome.
\<close>

theorem unknown_identifier_business_error:
  "fst (iocs_delete example_env 9 example_store) =
     Inl (BusinessProcessingError ''Not a valid IOC for this case'' NoData) \<and>
   \<not> is_not_found (fst (iocs_delete example_env 9 example_store)) \<and>
   is_business_error (fst (iocs_update example_env 9 new_value_body example_store)) \<and>
   \<not> is_not_found (fst (iocs_update example_env 9 new_value_body example_store))"
  by (simp add: business_defs example_defs)

text \<open>
  C4, as amended. For an identifier that matches no IOC, the views for delete, update
  and get answer not-found, having called \<open>iocs_get\<close> only, and the store is left as
  it was. The business operations \<open>iocs_delete\<close> and \<open>iocs_update\<close> themselves end in
  a \<open>BusinessProcessingError\<close>, never in a validation error, and change nothing.
\<close>

theorem unknown_identifier_outcomes:
  assumes "get_ioc s n = None"
  shows
    "delete_case_ioc ctx c n s = (response_api_not_found, s, [Business ''iocs_get'']) \<and>
     update_ioc ctx c n j s = (response_api_not_found, s, [Business ''iocs_get'']) \<and>
     get_case_ioc ctx c n s = (response_api_not_found, s, [Business ''iocs_get'']) \<and>
     iocs_delete env n s =
       (Inl (BusinessProcessingError ''Not a valid IOC for this case'' NoData), s) \<and>
     is_business_error (fst (iocs_update env n j s)) \<and>
     \<not> is_validation_error (fst (iocs_update env n j s)) \<and>
     snd (iocs_update env n j s) = s"
  using assms
  by (simp add: iocs_delete_def iocs_update_def iocs_update_try_def delete_case_ioc_def
      update_ioc_def get_case_ioc_def iocs_get_def)

text \<open>An instance: no IOC has the identifier 9.\<close>

theorem unknown_identifier_outcomes_witness:
  "get_ioc example_store 9 = None \<and>
   fst (delete_case_ioc example_rest 5 9 example_store) = response_api_not_found \<and>
   fst (update_ioc example_rest 5 9 new_value_body example_store) =
     response_api_not_found \<and>
   fst (get_case_ioc example_rest 5 9 example_store) = response_api_not_found \<and>
   is_business_error (fst (iocs_delete example_env 9 example_store)) \<and>
   snd (iocs_update example_env 9 new_value_body example_store) = example_store"
proof -
  have f: "get_ioc example_store 9 = None"
    by (simp add: get_ioc_def example_store_def example_ioc_def)
  from unknown_identifier_outcomes
    [OF f, where ctx = example_rest and c = 5 and j = new_value_body and env = example_env]
    f
  show ?thesis by simp
qed

text \<open>
  C5 as stated fails: a create whose payload lacks the required field \<open>ioc_value\<close>
  does not end in a \<open>ValidationError\<close>; it ends in a \<open>BusinessProcessingError\<close> that
  carries the field messages.
\<close>

theorem schema_failure_not_validation_error:
  "fst (iocs_create example_env no_value_body 5 empty_store) =
     Inl (BusinessProcessingError ''Data error''
            (Messages [(''ioc_value'', [''Missing data for required field.''])])) \<and>
   \<not> is_validation_error (fst (iocs_create example_env no_value_body 5 empty_store))"
  by (simp add: business_defs example_defs)

text \<open>
  C5, as amended. When the schema rejects the payload of a create or of an update, the
  operation ends in the \<open>BusinessProcessingError\<close> with the message \<open>Data error\<close> whose
  data are the per-field messages of the schema, and the store is left as it was:
  nothing is persisted and no activity entry is recorded.
\<close>

theorem schema_failure_is_data_error:
  "(hook_on_preload_ioc_create env j c = Some d \<and>
    schema_load env (d(''case_id'' \<mapsto> JInt c)) = Inl messages
    \<longrightarrow>
      iocs_create env j c s =
        (Inl (BusinessProcessingError ''Data error'' (Messages messages)), s)) \<and>
   (get_ioc s n = Some i \<and>
    hook_on_preload_ioc_update env j' (case_id i) = Some d' \<and>
    schema_load_instance env
      (d'(''ioc_id'' \<mapsto> JInt n, ''case_id'' \<mapsto> JInt (case_id i))) i = Inl messages'
    \<longrightarrow>
      iocs_update env n j' s =
        (Inl (BusinessProcessingError ''Data error'' (Messages messages')), s))"
  by (simp add: iocs_create_def iocs_load_def iocs_update_def iocs_update_try_def)

text \<open>
  An instance: a create without \<open>ioc_value\<close> and an update of IOC 1 with a value that
  is not a string. Each error names the field, and the store is unchanged.
\<close>

theorem schema_failure_is_data_error_witness:
  "iocs_create example_env no_value_body 5 empty_store =
     (Inl (BusinessProcessingError ''Data error''
             (Messages [(''ioc_value'', [''Missing data for required field.''])])),
      empty_store) \<and>
   iocs_update example_env 1 bad_value_body example_store =
     (Inl (BusinessProcessingError ''Data error''
             (Messages [(''ioc_value'', [''Not a valid value.''])])),
      example_store)"
  using schema_failure_is_data_error
    [where env = example_env and j = no_value_body and c = 5 and d = no_value_body
       and messages = "[(''ioc_value'', [''Missing data for required field.''])]"
       and s = empty_store]
    schema_failure_is_data_error
    [where env = example_env and s = example_store and n = 1
       and i = "example_ioc 1 5 ''1.2.3.4''" and j' = bad_value_body
       and d' = bad_value_body
       and messages' = "[(''ioc_value'', [''Not a valid value.''])]"]
  by (simp add: example_defs get_ioc_def)

section \<open>Paginated lists\<close>

text \<open>
  C8. Every response of the IOC list of a case and of the case list that reports
  success carries the payload of the page that the filtered listing returned: the
  fields \<open>total\<close>, \<open>data\<close>, \<open>last_page\<close>, \<open>current_page\<close> and \<open>next_page\<close>, the last
  one the number of the next page when the page has a next one and null otherwise.
\<close>

theorem paginated_list_payload:
  "(is_success (fst (get_case_iocs ctx args c s)) \<longrightarrow>
      (\<exists>kw p. get_filtered_iocs ctx kw s = Some p \<and>
         fst (get_case_iocs ctx args c s) =
           response_api_success (page_payload (IocSchemaForAPIV2_dump ctx) p))) \<and>
   (is_success (fst (get_cases ctx args s)) \<longrightarrow>
      (\<exists>kw p. get_filtered_cases ctx kw s = Some p \<and>
         fst (get_cases ctx args s) =
           response_api_success (page_payload (CaseSchemaForAPIV2_dump ctx) p)))"
  by (auto simp: get_case_iocs_def get_cases_def Let_def page_payload_def
      split: option.splits if_splits)

text \<open>
  An instance: the first page of the IOCs of case 5 and of the cases, each with a next
  page, and the second page of the cases, the last one.
\<close>

theorem paginated_list_payload_witness:
  "fst (get_case_iocs example_rest no_args 5 example_store) =
     response_api_success
       (JObj [(''total'', JInt 1),
              (''data'', JList [JObj [(''ioc_id'', JInt 1), (''ioc_value'', JStr ''1.2.3.4''),
                                      (''case_id'', JInt 5)]]),
              (''last_page'', JInt 2), (''current_page'', JInt 1),
              (''next_page'', JInt 2)]) \<and>
   fst (get_cases example_rest no_args example_store) =
     response_api_success
       (JObj [(''total'', JInt 1), (''data'', JList [JObj [(''case_id'', JInt 5)]]),
              (''last_page'', JInt 2), (''current_page'', JInt 1),
              (''next_page'', JInt 2)]) \<and>
   fst (get_cases example_rest second_page example_store) =
     response_api_success
       (JObj [(''total'', JInt 1), (''data'', JList [JObj [(''case_id'', JInt 5)]]),
              (''last_page'', JInt 2), (''current_page'', JInt 2),
              (''next_page'', JNull)])"
proof -
  have 1: "fst (get_case_iocs example_rest no_args 5 example_store) =
     response_api_success
       (JObj [(''total'', JInt 1),
              (''data'', JList [JObj [(''ioc_id'', JInt 1), (''ioc_value'', JStr ''1.2.3.4''),
                                      (''case_id'', JInt 5)]]),
              (''last_page'', JInt 2), (''current_page'', JInt 1),
              (''next_page'', JInt 2)])"
    by (simp add: get_case_iocs_def example_defs Let_def get_default_def)
  have 2: "fst (get_cases example_rest no_args example_store) =
     response_api_success
       (JObj [(''total'', JInt 1), (''data'', JList [JObj [(''case_id'', JInt 5)]]),
              (''last_page'', JInt 2), (''current_page'', JInt 1),
              (''next_page'', JInt 2)])"
    by (simp add: get_cases_def example_defs Let_def get_default_def)
  have 3: "fst (get_cases example_rest second_page example_store) =
     response_api_success
       (JObj [(''total'', JInt 1), (''data'', JList [JObj [(''case_id'', JInt 5)]]),
              (''last_page'', JInt 2), (''current_page'', JInt 2),
              (''next_page'', JNull)])"
    by (simp add: get_cases_def example_defs Let_def get_default_def second_page_def)
  from paginated_list_payload [of example_rest no_args 5 example_store] 1 2 3
  show ?thesis by simp
qed

end
